theory Spec2Isabelle
  imports Complex_Main
begin

section \<open>Python values and exceptions\<close>

text \<open>
  The exceptions that the code of \<^verbatim>\<open>core/quokka.py\<close> raises, catches or lets through.
  All of them are subclasses of Python's \<^verbatim>\<open>Exception\<close>. The payload is the text that
  \<^verbatim>\<open>str(e)\<close> gives (for \<open>ImportError\<close> the module path that was not found, for
  \<open>AttributeError\<close> and \<open>UnboundLocalError\<close> the name that was looked up).
\<close>

datatype exn =
    AttributeError string
  | TypeError
  | ValueError
  | ImportError string
  | UnboundLocalError string
  | OSError string
  | PluginException string
  | QuokkaException string

fun exn_str :: "exn \<Rightarrow> string" where
  "exn_str (AttributeError m) = m"
| "exn_str TypeError = ''TypeError''"
| "exn_str ValueError = ''ValueError''"
| "exn_str (ImportError m) = m"
| "exn_str (UnboundLocalError m) = m"
| "exn_str (OSError m) = m"
| "exn_str (PluginException m) = m"
| "exn_str (QuokkaException m) = m"

text \<open>
  The Python values that occur as arguments and results: \<^verbatim>\<open>None\<close>, integers, strings
  and dictionaries. A character of a string is a code point below 256. A dictionary is the
  list of its items in iteration order.
\<close>

datatype pyval =
    PyNone
  | PyInt int
  | PyStr string
  | PyDict "(pyval \<times> pyval) list"

section \<open>The child process behind \<^verbatim>\<open>subprocess.Popen\<close>\<close>

text \<open>
  \<^verbatim>\<open>subprocess.Popen\<close> belongs to the Python library, not to this repository. A handle
  is described by what the library caches (\<open>returncode\<close>) and by what the operating system
  will do with the child: \<open>child_exit\<close> is the time at which the child exits and its status
  (\<open>None\<close>: it runs for ever), \<open>on_terminate\<close> and \<open>on_kill\<close> say what delivering SIGTERM
  and SIGKILL does. Time is a rational number of seconds.
\<close>

datatype sigeffect = SigFails string | SigIgnored | SigKills

record popen =
  returncode :: "int option"
  child_exit :: "(rat \<times> int) option"
  on_terminate :: sigeffect
  on_kill :: sigeffect

text \<open>\<^verbatim>\<open>Popen.poll()\<close>: the non-blocking status check; it caches the status it finds.\<close>

definition poll :: "popen \<Rightarrow> rat \<Rightarrow> int option \<times> popen" where
  "poll p now =
     (case returncode p of
        Some c \<Rightarrow> (Some c, p)
      | None \<Rightarrow>
          (case child_exit p of
             None \<Rightarrow> (None, p)
           | Some (t, c) \<Rightarrow> if t \<le> now then (Some c, p\<lparr>returncode := Some c\<rparr>) else (None, p)))"

text \<open>
  \<^verbatim>\<open>Popen.wait()\<close> without a timeout: blocks until the child has exited. The result is the
  status, the handle with the status cached and the time at which the call returns; \<open>None\<close>
  when the child never exits, so the call never returns.
\<close>

definition popen_wait :: "popen \<Rightarrow> rat \<Rightarrow> (int \<times> popen \<times> rat) option" where
  "popen_wait p now =
     (case returncode p of
        Some c \<Rightarrow> Some (c, p, now)
      | None \<Rightarrow>
          (case child_exit p of
             None \<Rightarrow> None
           | Some (t, c) \<Rightarrow> Some (c, p\<lparr>returncode := Some c\<rparr>, max now t)))"

text \<open>
  \<^verbatim>\<open>Popen.terminate()\<close> and \<^verbatim>\<open>Popen.kill()\<close> send signal 15 and signal 9. A signal that
  kills a child that is still running makes it exit now with status \<open>- signum\<close>.
\<close>

definition send_signal :: "sigeffect \<Rightarrow> int \<Rightarrow> popen \<Rightarrow> rat \<Rightarrow> exn + popen" where
  "send_signal eff signum p now =
     (case eff of
        SigFails m \<Rightarrow> Inl (OSError m)
      | SigIgnored \<Rightarrow> Inr p
      | SigKills \<Rightarrow>
          (if fst (poll p now) = None then Inr (p\<lparr>child_exit := Some (now, - signum)\<rparr>)
           else Inr p))"

definition terminate :: "popen \<Rightarrow> rat \<Rightarrow> exn + popen" where
  "terminate p now = send_signal (on_terminate p) 15 p now"

definition kill :: "popen \<Rightarrow> rat \<Rightarrow> exn + popen" where
  "kill p now = send_signal (on_kill p) 9 p now"

section \<open>\<^verbatim>\<open>ExternalProcess\<close>\<close>

text \<open>
  The calls that an \<^verbatim>\<open>ExternalProcess\<close> makes on the library, in the order in which it
  makes them.
\<close>

datatype call = Poll | Sleep rat | Terminate | Kill | Wait | LogError string

text \<open>
  The state: the attribute \<^verbatim>\<open>self.process\<close> (\<open>None\<close> until \<^verbatim>\<open>open\<close> has run), the
  clock that \<^verbatim>\<open>time.time()\<close> reads, and the calls made so far.
\<close>

record extproc =
  process :: "popen option"
  clock :: rat
  calls :: "call list"

definition record_call :: "call \<Rightarrow> extproc \<Rightarrow> extproc" where
  "record_call c s = s\<lparr>calls := calls s @ [c]\<rparr>"

text \<open>\<^verbatim>\<open>time.sleep(interval)\<close>: a negative argument raises, otherwise the clock advances.\<close>

definition sleep :: "rat \<Rightarrow> extproc \<Rightarrow> exn + extproc" where
  "sleep interval s =
     (if interval < 0 then Inl ValueError
      else Inr (record_call (Sleep interval) (s\<lparr>clock := clock s + interval\<rparr>)))"

text \<open>
  \<^verbatim>\<open>ExternalProcess.stop\<close> (lines 115-121). The guard \<^verbatim>\<open>if self.process\<close> holds for every
  \<^verbatim>\<open>Popen\<close> object. Inside \<^verbatim>\<open>try\<close>, \<^verbatim>\<open>kill()\<close> runs only when \<^verbatim>\<open>terminate()\<close> has
  returned; \<^verbatim>\<open>except Exception\<close> catches every exception of \<open>exn\<close> and logs it.
\<close>

definition stop_body :: "popen \<Rightarrow> extproc \<Rightarrow> (exn + unit) \<times> extproc" where
  "stop_body p s =
     (let s1 = record_call Terminate s in
      case terminate p (clock s) of
        Inl e \<Rightarrow> (Inl e, s1)
      | Inr p1 \<Rightarrow>
          (let s2 = record_call Kill (s1\<lparr>process := Some p1\<rparr>) in
           case kill p1 (clock s) of
             Inl e \<Rightarrow> (Inl e, s2)
           | Inr p2 \<Rightarrow> (Inr (), s2\<lparr>process := Some p2\<rparr>)))"

definition stop :: "extproc \<Rightarrow> (exn + unit) \<times> extproc" where
  "stop s =
     (case process s of
        None \<Rightarrow> (Inr (), s)
      | Some p \<Rightarrow>
          (case stop_body p s of
             (Inl e, s') \<Rightarrow> (Inr (), record_call (LogError (exn_str e)) s')
           | (Inr u, s') \<Rightarrow> (Inr (), s')))"

text \<open>\<^verbatim>\<open>ExternalProcess.is_running\<close> (lines 108-113).\<close>

definition is_running :: "extproc \<Rightarrow> bool \<times> extproc" where
  "is_running s =
     (case process s of
        None \<Rightarrow> (False, s)
      | Some p \<Rightarrow>
          (case poll p (clock s) of
             (r, p') \<Rightarrow> (r = None, record_call Poll (s\<lparr>process := Some p'\<rparr>))))"

text \<open>
  The loop of \<^verbatim>\<open>ExternalProcess.wait\<close> (lines 86-92). The result is \<open>Inr (Some r)\<close> when
  \<^verbatim>\<open>return result\<close> runs, \<open>Inr None\<close> when \<^verbatim>\<open>break\<close> runs, \<open>Inl e\<close> when \<open>e\<close> is raised;
  the whole is \<open>None\<close> when the loop never ends. With \<^verbatim>\<open>self.process\<close> still \<^verbatim>\<open>None\<close>,
  \<^verbatim>\<open>self.process.poll\<close> raises \<open>AttributeError\<close>.
\<close>

partial_function (option) wait_loop ::
  "rat \<Rightarrow> rat \<Rightarrow> extproc \<Rightarrow> ((exn + int option) \<times> extproc) option" where
  "wait_loop end_time interval s =
     (case process s of
        None \<Rightarrow> Some (Inl (AttributeError ''poll''), s)
      | Some p \<Rightarrow>
          (case poll p (clock s) of
             (result, p') \<Rightarrow>
               (let s1 = record_call Poll (s\<lparr>process := Some p'\<rparr>) in
                case result of
                  Some r \<Rightarrow> Some (Inr (Some r), s1)
                | None \<Rightarrow>
                    if clock s1 \<ge> end_time then Some (Inr None, s1)
                    else
                      (case sleep interval s1 of
                         Inl e \<Rightarrow> Some (Inl e, s1)
                       | Inr s2 \<Rightarrow> wait_loop end_time interval s2))))"

text \<open>
  The last statement of \<^verbatim>\<open>wait\<close> (line 94): \<^verbatim>\<open>self.process.wait()\<close>, whose value is
  dropped, so the method then returns \<^verbatim>\<open>None\<close>.
\<close>

definition process_wait :: "extproc \<Rightarrow> ((exn + pyval) \<times> extproc) option" where
  "process_wait s =
     (case process s of
        None \<Rightarrow> Some (Inl (AttributeError ''wait''), s)
      | Some p \<Rightarrow>
          (case popen_wait p (clock s) of
             None \<Rightarrow> None
           | Some (c, p', t') \<Rightarrow>
               Some (Inr PyNone, record_call Wait (s\<lparr>process := Some p', clock := t'\<rparr>))))"

text \<open>
  \<^verbatim>\<open>ExternalProcess.wait\<close> (lines 82-94). The argument is the value bound to \<^verbatim>\<open>timeout\<close>:
  \<open>None\<close> is Python's \<^verbatim>\<open>None\<close>, and \<^verbatim>\<open>if timeout\<close> holds for every number but zero.
\<close>

definition wait :: "rat option \<Rightarrow> extproc \<Rightarrow> ((exn + pyval) \<times> extproc) option" where
  "wait timeout s =
     (case timeout of
        None \<Rightarrow> process_wait s
      | Some t \<Rightarrow>
          if t \<noteq> 0 then
            (let end_time = clock s + t;
                 interval = min (t / 1000) (1 / 4)
             in case wait_loop end_time interval s of
                  None \<Rightarrow> None
                | Some (Inl e, s1) \<Rightarrow> Some (Inl e, s1)
                | Some (Inr (Some result), s1) \<Rightarrow> Some (Inr (PyInt result), s1)
                | Some (Inr None, s1) \<Rightarrow> process_wait (snd (stop s1)))
          else process_wait s)"

text \<open>
  The binding of the parameter \<^verbatim>\<open>timeout=600\<close>: a call that passes no argument gets 600.
\<close>

definition wait_timeout_arg :: "rat option option \<Rightarrow> rat option" where
  "wait_timeout_arg a = (case a of None \<Rightarrow> Some 600 | Some t \<Rightarrow> t)"

section \<open>\<^verbatim>\<open>ExternalProcess.set_environ\<close>\<close>

text \<open>
  \<^verbatim>\<open>set_environ\<close> calls three things that are not part of the repository: the builtins
  \<^verbatim>\<open>str\<close> and \<^verbatim>\<open>repr\<close> of the interpreter (through \<^verbatim>\<open>'{!s}={!r}'.format\<close>) and the
  \<^verbatim>\<open>putenv\<close> of the platform (through the item assignment of \<^verbatim>\<open>os.environ\<close>). They are
  parameters of the model: \<open>putenv I name value\<close> is the exception that \<^verbatim>\<open>putenv\<close> raises for
  two strings, \<open>None\<close> when it accepts them.
\<close>

record interp =
  str_of :: "pyval \<Rightarrow> string"
  repr_of :: "pyval \<Rightarrow> string"
  putenv :: "string \<Rightarrow> string \<Rightarrow> exn option"

text \<open>\<^verbatim>\<open>','.join\<close> of the Python library.\<close>

fun join :: "string \<Rightarrow> string list \<Rightarrow> string" where
  "join sep [] = []"
| "join sep [x] = x"
| "join sep (x # y # ys) = x @ sep @ join sep (y # ys)"

text \<open>
  \<^verbatim>\<open>os.environ\<close> is one object of the running interpreter, a mapping from strings to
  strings. Its item assignment raises \<open>TypeError\<close> for a key or a value that is not a string
  (the key is looked at first); for two strings it calls \<^verbatim>\<open>putenv\<close> and stores the value
  only when that call has returned.
\<close>

type_synonym environ = "string \<rightharpoonup> string"

fun environ_setitem :: "interp \<Rightarrow> pyval \<Rightarrow> pyval \<Rightarrow> environ \<Rightarrow> exn + environ" where
  "environ_setitem I (PyStr k) (PyStr v) env =
     (case putenv I k v of Some e \<Rightarrow> Inl e | None \<Rightarrow> Inr (env(k \<mapsto> v)))"
| "environ_setitem I k v env = Inl TypeError"

text \<open>The generator expression of line 103, joined.\<close>

definition serialize_dict :: "interp \<Rightarrow> (pyval \<times> pyval) list \<Rightarrow> string" where
  "serialize_dict I items =
     join '','' (map (\<lambda>(k, v). str_of I k @ ''='' @ repr_of I v) items)"

text \<open>
  The loop of lines 101-105 over \<^verbatim>\<open>context.items()\<close>. The name \<^verbatim>\<open>env\<close> is bound to
  \<^verbatim>\<open>os.environ\<close> itself (line 98), so every assignment is one to \<^verbatim>\<open>os.environ\<close>; an
  assignment that raises leaves the earlier ones in place.
\<close>

fun set_environ_loop ::
  "interp \<Rightarrow> (pyval \<times> pyval) list \<Rightarrow> environ \<Rightarrow> (exn + unit) \<times> environ" where
  "set_environ_loop I [] env = (Inr (), env)"
| "set_environ_loop I ((key, val) # rest) env =
     (case (case val of
              PyDict d \<Rightarrow> environ_setitem I key (PyStr (serialize_dict I d)) env
            | _ \<Rightarrow> environ_setitem I key val env) of
        Inl e \<Rightarrow> (Inl e, env)
      | Inr env' \<Rightarrow> set_environ_loop I rest env')"

text \<open>
  \<^verbatim>\<open>ExternalProcess.set_environ\<close> (lines 96-106). The third argument and the second
  component of the result are the contents of \<^verbatim>\<open>os.environ\<close> before and after the call;
  the first component of the result is the contents of the mapping that is returned.
\<close>

definition set_environ ::
  "interp \<Rightarrow> (pyval \<times> pyval) list option \<Rightarrow> environ \<Rightarrow> (exn + environ) \<times> environ" where
  "set_environ I context os_environ =
     (case context of
        None \<Rightarrow> (Inr os_environ, os_environ)
      | Some items \<Rightarrow>
          (case set_environ_loop I items os_environ of
             (Inl e, env) \<Rightarrow> (Inl e, env)
           | (Inr u, env) \<Rightarrow> (Inr env, env)))"

text \<open>
  The instance for CPython 3 on a POSIX system. \<^verbatim>\<open>repr\<close> of an integer is its decimal
  text. \<^verbatim>\<open>repr\<close> of a string quotes it with \<^verbatim>\<open>'\<close> (with \<^verbatim>\<open>"\<close> when the string holds
  \<^verbatim>\<open>'\<close> and no \<^verbatim>\<open>"\<close>) and escapes the quote, the backslash and the code points that do
  not print: those below 32, those from 127 to 160, and 173. \<^verbatim>\<open>str\<close> of a string is the
  string, \<^verbatim>\<open>str\<close> of any other value its \<^verbatim>\<open>repr\<close>. \<^verbatim>\<open>putenv\<close> raises \<open>ValueError\<close> for a
  NUL in the name or the value and for \<^verbatim>\<open>=\<close> in the name, and \<open>OSError\<close> for the empty
  name.
\<close>

definition digit_char :: "nat \<Rightarrow> char" where
  "digit_char d = ''0123456789abcdef'' ! d"

fun nat_str :: "nat \<Rightarrow> string" where
  "nat_str n = (if n < 10 then [digit_char n] else nat_str (n div 10) @ [digit_char (n mod 10)])"

definition int_str :: "int \<Rightarrow> string" where
  "int_str i = (if i < 0 then CHR ''-'' # nat_str (nat (- i)) else nat_str (nat i))"

definition escape_char :: "char \<Rightarrow> char \<Rightarrow> string" where
  "escape_char quote c =
     (if c = quote \<or> c = CHR 0x5C then [CHR 0x5C, c]
      else if c = CHR 0x09 then [CHR 0x5C, CHR ''t'']
      else if c = CHR 0x0A then [CHR 0x5C, CHR ''n'']
      else if c = CHR 0x0D then [CHR 0x5C, CHR ''r'']
      else if of_char c < (32::nat) \<or> ((127::nat) \<le> of_char c \<and> of_char c \<le> (160::nat))
              \<or> of_char c = (173::nat) then
        [CHR 0x5C, CHR ''x'', digit_char (of_char c div 16), digit_char (of_char c mod 16)]
      else [c])"

definition str_repr :: "string \<Rightarrow> string" where
  "str_repr s =
     (let quote = (if CHR 0x27 \<in> set s \<and> CHR 0x22 \<notin> set s then CHR 0x22 else CHR 0x27)
      in quote # concat (map (escape_char quote) s) @ [quote])"

fun py_repr :: "pyval \<Rightarrow> string" where
  "py_repr PyNone = ''None''"
| "py_repr (PyInt i) = int_str i"
| "py_repr (PyStr s) = str_repr s"
| "py_repr (PyDict items) =
     ''{'' @ join '', '' (map (\<lambda>(k, v). py_repr k @ '': '' @ py_repr v) items) @ ''}''"

fun py_str :: "pyval \<Rightarrow> string" where
  "py_str (PyStr s) = s"
| "py_str v = py_repr v"

definition posix_putenv :: "string \<Rightarrow> string \<Rightarrow> exn option" where
  "posix_putenv name val =
     (if CHR 0x00 \<in> set name \<or> CHR 0x00 \<in> set val then Some ValueError
      else if CHR ''='' \<in> set name then Some ValueError
      else if name = [] then Some (OSError ''[Errno 22] Invalid argument'')
      else None)"

definition cpython3 :: interp where
  "cpython3 = \<lparr>str_of = py_str, repr_of = py_repr, putenv = posix_putenv\<rparr>"

section \<open>\<^verbatim>\<open>ModuleImporter\<close>\<close>

text \<open>\<^verbatim>\<open>str.split\<close> with a one-character separator.\<close>

fun split_on :: "char \<Rightarrow> string \<Rightarrow> string list" where
  "split_on c [] = [[]]"
| "split_on c (x # xs) =
     (if x = c then [] # split_on c xs
      else (case split_on c xs of [] \<Rightarrow> [[x]] | w # ws \<Rightarrow> (x # w) # ws))"

record importer =
  class_name :: string
  module_path :: string

definition ModuleImporter :: "string \<Rightarrow> importer" where
  "ModuleImporter path =
     \<lparr>class_name = last (split_on CHR ''.'' path),
      module_path = join ''.'' (butlast (split_on CHR ''.'' path))\<rparr>"

text \<open>
  The modules that \<^verbatim>\<open>__import__\<close> can find are not part of the source: a package is a table
  from module path to what importing the module does, either raise or give its attributes.
  A module that is not there raises \<open>ImportError\<close>, a missing attribute \<open>AttributeError\<close>.
\<close>

type_synonym 'c package = "string \<rightharpoonup> (exn + (string \<rightharpoonup> 'c))"

datatype event =
    LogDebug string
  | LogInfo string
  | LogWarning string
  | DetectedFault nat
  | GetData nat
  | AddToBucket nat string
  | AddFault nat

definition quoted :: "string \<Rightarrow> string" where
  "quoted s = CHR 0x27 # s @ [CHR 0x27]"

text \<open>\<^verbatim>\<open>ModuleImporter.klass\<close> (lines 51-54), with the log it writes to.\<close>

definition klass :: "'c package \<Rightarrow> importer \<Rightarrow> event list \<Rightarrow> (exn + 'c) \<times> event list" where
  "klass pkg imp evs =
     (let evs1 = evs @ [LogDebug (''Importing '' @ quoted (class_name imp) @ '' from ''
                                   @ quoted (module_path imp))]
      in case pkg (module_path imp) of
           None \<Rightarrow> (Inl (ImportError (module_path imp)), evs1)
         | Some (Inl e) \<Rightarrow> (Inl e, evs1)
         | Some (Inr attrs) \<Rightarrow>
             (case attrs (class_name imp) of
                None \<Rightarrow> (Inl (AttributeError (class_name imp)), evs1)
              | Some c \<Rightarrow> (Inr c, evs1)))"

section \<open>Plugins, monitors, listeners and loggers\<close>

text \<open>
  Modelled from the spec: the plugin classes of \<^verbatim>\<open>core.plugins\<close> are not in the source. A
  plugin is an \<^verbatim>\<open>ExternalProcess\<close>; its class is given by the instance that the constructor
  builds from the configuration and by what \<^verbatim>\<open>start()\<close> does to an instance (it may raise).
\<close>

record plugin_class =
  pc_new :: "pyval \<Rightarrow> extproc"
  pc_start :: "extproc \<Rightarrow> (exn + unit) \<times> extproc"

text \<open>
  Modelled from the spec: the listener classes of \<^verbatim>\<open>core.listeners\<close> are not in the source.
  A listener is opaque: its class and the arguments it was built from.
\<close>

record listener =
  ln_class :: string
  ln_kargs :: "pyval list"

text \<open>
  Modelled from the spec: the monitor classes of \<^verbatim>\<open>core.monitors\<close> are not in the source. A
  class declares \<^verbatim>\<open>MONITOR_NAME\<close>; \<open>mc_str\<close> is the text that \<^verbatim>\<open>str\<close> gives for the class,
  \<open>mc_fault\<close> and \<open>mc_data\<close> are what \<^verbatim>\<open>detected_fault()\<close> and \<^verbatim>\<open>get_data()\<close> of its
  instances answer. An instance keeps the process handle and arguments it was built from, its
  listeners, the attribute \<^verbatim>\<open>daemon\<close> and the number of calls of \<^verbatim>\<open>start()\<close>.
\<close>

record monitor_class =
  MONITOR_NAME :: string
  mc_str :: string
  mc_fault :: bool
  mc_data :: string

record monitor =
  mn_class :: monitor_class
  mn_process :: "popen option"
  mn_kargs :: "pyval list"
  mn_listeners :: "listener list"
  mn_daemon :: bool
  mn_starts :: nat

definition new_monitor :: "monitor_class \<Rightarrow> popen option \<Rightarrow> pyval list \<Rightarrow> monitor" where
  "new_monitor mc proc kargs =
     \<lparr>mn_class = mc, mn_process = proc, mn_kargs = kargs, mn_listeners = [],
      mn_daemon = False, mn_starts = 0\<rparr>"

definition add_listener :: "listener \<Rightarrow> monitor \<Rightarrow> monitor" where
  "add_listener l m = m\<lparr>mn_listeners := mn_listeners m @ [l]\<rparr>"

definition monitor_start :: "monitor \<Rightarrow> monitor" where
  "monitor_start m = m\<lparr>mn_starts := Suc (mn_starts m)\<rparr>"

definition detected_fault :: "monitor \<Rightarrow> bool" where
  "detected_fault m = mc_fault (mn_class m)"

definition get_data :: "monitor \<Rightarrow> string" where
  "get_data m = mc_data (mn_class m)"

text \<open>
  Modelled from the spec: the logger classes of \<^verbatim>\<open>core.loggers\<close> are not in the source. A
  logger owns a bucket of fault records; \<^verbatim>\<open>add_fault()\<close> is its commit step, counted.
\<close>

record logger =
  lg_class :: string
  lg_kargs :: "(string \<times> pyval) list"
  lg_bucket :: "string list"
  lg_faults :: nat

definition new_logger :: "string \<Rightarrow> (string \<times> pyval) list \<Rightarrow> logger" where
  "new_logger lc kargs = \<lparr>lg_class = lc, lg_kargs = kargs, lg_bucket = [], lg_faults = 0\<rparr>"

definition add_to_bucket :: "string \<Rightarrow> logger \<Rightarrow> logger" where
  "add_to_bucket d l = l\<lparr>lg_bucket := lg_bucket l @ [d]\<rparr>"

definition add_fault :: "logger \<Rightarrow> logger" where
  "add_fault l = l\<lparr>lg_faults := Suc (lg_faults l)\<rparr>"

record packages =
  plugins_pkg :: "plugin_class package"
  monitors_pkg :: "monitor_class package"
  listeners_pkg :: "string package"
  loggers_pkg :: "string package"

section \<open>\<^verbatim>\<open>Quokka\<close>\<close>

text \<open>The configuration \<^verbatim>\<open>conf\<close>: the entries that \<^verbatim>\<open>Quokka\<close> reads.\<close>

record listener_spec =
  ls_class :: string
  ls_kargs :: "pyval list"

record monitor_spec =
  ms_class :: string
  ms_kargs :: "pyval list"
  ms_listeners :: "listener_spec list"

record logger_spec =
  gs_class :: string
  gs_kargs :: "(string \<times> pyval) list"

record conf =
  conf_plugin_class :: string
  conf_quokka :: pyval
  conf_monitors :: "monitor_spec list"
  conf_loggers :: "logger_spec list"

text \<open>
  The state of a \<^verbatim>\<open>Quokka\<close> object. Monitor and logger instances live in a store and the
  lists \<^verbatim>\<open>self.monitors\<close> and \<^verbatim>\<open>self.loggers\<close> hold their addresses, so that one instance
  can be in a list twice. \<open>mnext\<close> and \<open>lnext\<close> are the next free addresses.
\<close>

record quokka =
  monitors :: "nat list"
  loggers :: "nat list"
  plugin :: "extproc option"
  mstore :: "nat \<Rightarrow> monitor"
  mnext :: nat
  lstore :: "nat \<Rightarrow> logger"
  lnext :: nat
  events :: "event list"

definition log_event :: "event \<Rightarrow> quokka \<Rightarrow> quokka" where
  "log_event e q = q\<lparr>events := events q @ [e]\<rparr>"

text \<open>
  The loop over \<^verbatim>\<open>monitor_listeners\<close> (lines 203-209). The third argument is the local
  variable \<^verbatim>\<open>monitor_instance\<close>: \<open>None\<close> while nothing has been assigned to it.
\<close>

fun attach_listeners ::
  "packages \<Rightarrow> listener_spec list \<Rightarrow> nat option \<Rightarrow> quokka \<Rightarrow> (exn + unit) \<times> quokka" where
  "attach_listeners pk [] inst q = (Inr (), q)"
| "attach_listeners pk (l # ls) inst q =
     (let q1 = log_event (LogInfo (''Attaching listener '' @ quoted (ls_class l))) q in
      case klass (listeners_pkg pk) (ModuleImporter (''core.listeners.'' @ ls_class l)) (events q1) of
        (Inl e, evs) \<Rightarrow> (Inl e, q1\<lparr>events := evs\<rparr>)
      | (Inr lc, evs) \<Rightarrow>
          (let q2 = q1\<lparr>events := evs\<rparr>;
               listener_instance = \<lparr>ln_class = lc, ln_kargs = ls_kargs l\<rparr>
           in case inst of
                None \<Rightarrow> (Inl (UnboundLocalError ''monitor_instance''), q2)
              | Some r \<Rightarrow>
                  attach_listeners pk ls inst
                    (q2\<lparr>mstore := (mstore q2)(r := add_listener listener_instance (mstore q2 r))\<rparr>)))"

text \<open>
  Lines 203-212, run for a monitor that was not skipped: attach the listeners, set
  \<^verbatim>\<open>daemon\<close>, start the instance and append it to \<^verbatim>\<open>self.monitors\<close>.
\<close>

definition attach_instance ::
  "packages \<Rightarrow> listener_spec list \<Rightarrow> nat option \<Rightarrow> quokka \<Rightarrow> (exn + unit) \<times> quokka" where
  "attach_instance pk lspecs inst q =
     (case attach_listeners pk lspecs inst q of
        (Inl e, q1) \<Rightarrow> (Inl e, q1)
      | (Inr u, q1) \<Rightarrow>
          (case inst of
             None \<Rightarrow> (Inl (UnboundLocalError ''monitor_instance''), q1)
           | Some r \<Rightarrow>
               (Inr (),
                q1\<lparr>mstore := (mstore q1)(r := monitor_start ((mstore q1 r)\<lparr>mn_daemon := True\<rparr>)),
                   monitors := monitors q1 @ [r]\<rparr>)))"

text \<open>
  The loop of \<^verbatim>\<open>Quokka.attach_monitors\<close> (lines 190-212). \<^verbatim>\<open>monitor_instance\<close> is a
  variable of the function, not of the loop body: it keeps its value from one monitor to
  the next.
\<close>

fun attach_monitors_loop ::
  "packages \<Rightarrow> extproc \<Rightarrow> monitor_spec list \<Rightarrow> nat option \<Rightarrow> quokka \<Rightarrow> (exn + unit) \<times> quokka" where
  "attach_monitors_loop pk plg [] inst q = (Inr (), q)"
| "attach_monitors_loop pk plg (m # ms) inst q =
     (let q1 = log_event (LogInfo (''Attaching monitor '' @ quoted (ms_class m))) q in
      case klass (monitors_pkg pk) (ModuleImporter (''core.monitors.'' @ ms_class m)) (events q1) of
        (Inl e, evs) \<Rightarrow> (Inl e, q1\<lparr>events := evs\<rparr>)
      | (Inr mc, evs) \<Rightarrow>
          (let q2 = q1\<lparr>events := evs\<rparr> in
           if MONITOR_NAME mc = ''ConsoleMonitor'' then
             (let r = mnext q2;
                  q3 = q2\<lparr>mstore := (mstore q2)(r := new_monitor mc (process plg) (ms_kargs m)),
                          mnext := Suc r\<rparr>
              in case attach_instance pk (ms_listeners m) (Some r) q3 of
                   (Inl e, q4) \<Rightarrow> (Inl e, q4)
                 | (Inr u, q4) \<Rightarrow> attach_monitors_loop pk plg ms (Some r) q4)
           else if MONITOR_NAME mc = ''WebSocketMonitor'' then
             (case attach_instance pk (ms_listeners m) inst q2 of
                (Inl e, q4) \<Rightarrow> (Inl e, q4)
              | (Inr u, q4) \<Rightarrow> attach_monitors_loop pk plg ms inst q4)
           else
             attach_monitors_loop pk plg ms inst
               (log_event (LogWarning (''Unsupported monitor: '' @ mc_str mc)) q2)))"

definition attach_monitors ::
  "packages \<Rightarrow> extproc \<Rightarrow> monitor_spec list \<Rightarrow> quokka \<Rightarrow> (exn + unit) \<times> quokka" where
  "attach_monitors pk plg mspecs q = attach_monitors_loop pk plg mspecs None q"

text \<open>\<^verbatim>\<open>Quokka.attach_loggers\<close> (lines 214-226).\<close>

fun attach_loggers :: "packages \<Rightarrow> logger_spec list \<Rightarrow> quokka \<Rightarrow> (exn + unit) \<times> quokka" where
  "attach_loggers pk [] q = (Inr (), q)"
| "attach_loggers pk (l # ls) q =
     (let q1 = log_event (LogInfo (''Attaching logger '' @ quoted (gs_class l))) q in
      case klass (loggers_pkg pk) (ModuleImporter (''core.loggers.'' @ gs_class l)) (events q1) of
        (Inl e, evs) \<Rightarrow> (Inl e, q1\<lparr>events := evs\<rparr>)
      | (Inr lc, evs) \<Rightarrow>
          (let q2 = q1\<lparr>events := evs\<rparr>; r = lnext q2 in
           attach_loggers pk ls
             (q2\<lparr>lstore := (lstore q2)(r := new_logger lc (gs_kargs l)), lnext := Suc r,
                 loggers := loggers q2 @ [r]\<rparr>)))"

text \<open>
  \<^verbatim>\<open>Quokka.detect_faults\<close> (lines 228-239): \<open>deliver\<close> is the inner loop of lines 236-237,
  \<open>collect\<close> the loop of lines 233-237, \<open>finalize\<close> the loop of lines 238-239.
\<close>

fun deliver :: "string \<Rightarrow> nat list \<Rightarrow> quokka \<Rightarrow> quokka" where
  "deliver d [] q = q"
| "deliver d (l # ls) q =
     deliver d ls
       (log_event (AddToBucket l d) (q\<lparr>lstore := (lstore q)(l := add_to_bucket d (lstore q l))\<rparr>))"

fun collect :: "nat list \<Rightarrow> quokka \<Rightarrow> quokka" where
  "collect [] q = q"
| "collect (m # ms) q =
     (let q1 = log_event (DetectedFault m) q in
      if detected_fault (mstore q1 m) then
        (let monitor_data = get_data (mstore q1 m);
             q2 = log_event (GetData m) q1
         in collect ms (deliver monitor_data (loggers q2) q2))
      else collect ms q1)"

fun finalize :: "nat list \<Rightarrow> quokka \<Rightarrow> quokka" where
  "finalize [] q = q"
| "finalize (l # ls) q =
     finalize ls (log_event (AddFault l) (q\<lparr>lstore := (lstore q)(l := add_fault (lstore q l))\<rparr>))"

definition detect_faults :: "quokka \<Rightarrow> quokka" where
  "detect_faults q = (let q1 = collect (monitors q) q in finalize (loggers q1) q1)"

text \<open>
  \<^verbatim>\<open>Quokka.run_plugin\<close> (lines 142-165). Each \<^verbatim>\<open>except PluginException\<close> turns that
  exception, and no other, into a \<open>QuokkaException\<close>. The wait of line 161 is
  \<^verbatim>\<open>Popen.wait()\<close> on the plugin's process: the result is \<open>None\<close> when it never returns.
\<close>

definition run_plugin :: "packages \<Rightarrow> conf \<Rightarrow> quokka \<Rightarrow> ((exn + pyval) \<times> quokka) option" where
  "run_plugin pk cf q =
     (case klass (plugins_pkg pk) (ModuleImporter (''core.plugins.'' @ conf_plugin_class cf))
             (events q) of
        (Inl e, evs) \<Rightarrow>
          Some (Inl (case e of
                       PluginException msg \<Rightarrow>
                         QuokkaException (''Plugin initialization failed: '' @ msg)
                     | _ \<Rightarrow> e),
                q\<lparr>events := evs\<rparr>)
      | (Inr plugin_class, evs) \<Rightarrow>
          (case pc_start plugin_class (pc_new plugin_class (conf_quokka cf)) of
             (Inl e, plg) \<Rightarrow>
               Some (Inl (case e of PluginException msg \<Rightarrow> QuokkaException msg | _ \<Rightarrow> e),
                     q\<lparr>events := evs, plugin := Some plg\<rparr>)
           | (Inr u, plg) \<Rightarrow>
               (case attach_monitors pk plg (conf_monitors cf) (q\<lparr>events := evs, plugin := Some plg\<rparr>) of
                  (Inl e, q1) \<Rightarrow> Some (Inl e, q1)
                | (Inr u, q1) \<Rightarrow>
                    (case attach_loggers pk (conf_loggers cf) q1 of
                       (Inl e, q2) \<Rightarrow> Some (Inl e, q2)
                     | (Inr u, q2) \<Rightarrow>
                         (case process plg of
                            None \<Rightarrow> Some (Inl (AttributeError ''wait''), q2)
                          | Some p \<Rightarrow>
                              (case popen_wait p (clock plg) of
                                 None \<Rightarrow> None
                               | Some (c, p', t') \<Rightarrow>
                                   Some (Inr (case returncode p' of
                                                None \<Rightarrow> PyNone
                                              | Some rc \<Rightarrow> PyInt rc),
                                         detect_faults
                                           (q2\<lparr>plugin :=
                                                 Some (record_call Wait
                                                   (plg\<lparr>process := Some p', clock := t'\<rparr>))\<rparr>))))))))"

text \<open>\<^verbatim>\<open>Quokka.__init__\<close> (lines 136-140), with a store that holds no instance yet.\<close>

definition blank_monitor :: monitor where
  "blank_monitor =
     new_monitor \<lparr>MONITOR_NAME = [], mc_str = [], mc_fault = False, mc_data = []\<rparr> None []"

definition quokka_init :: quokka where
  "quokka_init =
     \<lparr>monitors = [], loggers = [], plugin = None,
      mstore = (\<lambda>r. blank_monitor), mnext = 0,
      lstore = (\<lambda>r. new_logger [] []), lnext = 0,
      events = []\<rparr>"

section \<open>Notions used in the statements\<close>

text \<open>A child is alive at time \<open>t\<close> when no status is cached and it exits after \<open>t\<close> or never.\<close>

definition alive :: "popen \<Rightarrow> rat \<Rightarrow> bool" where
  "alive p t =
     (returncode p = None \<and> (case child_exit p of None \<Rightarrow> True | Some (t', c) \<Rightarrow> t < t'))"

text \<open>The calls of a loop that polls, sleeps \<open>n\<close> times and polls a last time.\<close>

fun loop_calls :: "nat \<Rightarrow> rat \<Rightarrow> call list" where
  "loop_calls 0 i = [Poll]"
| "loop_calls (Suc n) i = Poll # Sleep i # loop_calls n i"

text \<open>
  What one item of a context writes to the environment: the key and the string stored under
  it, when the key is a string, the value a string or a dictionary, and \<^verbatim>\<open>putenv\<close> accepts
  the key with the string to store. \<open>entries\<close> is \<open>None\<close> as soon as one item writes nothing.
\<close>

fun entry :: "interp \<Rightarrow> pyval \<times> pyval \<Rightarrow> (string \<times> string) option" where
  "entry I (PyStr k, PyStr s) = (if putenv I k s = None then Some (k, s) else None)"
| "entry I (PyStr k, PyDict d) =
     (if putenv I k (serialize_dict I d) = None then Some (k, serialize_dict I d) else None)"
| "entry I x = None"

fun entries :: "interp \<Rightarrow> (pyval \<times> pyval) list \<Rightarrow> (string \<times> string) list option" where
  "entries I [] = Some []"
| "entries I (x # xs) =
     (case entry I x of
        None \<Rightarrow> None
      | Some e \<Rightarrow> (case entries I xs of None \<Rightarrow> None | Some es \<Rightarrow> Some (e # es)))"

text \<open>The events of the collection phase of \<open>detect_faults\<close>, for the monitors \<open>ms\<close>.\<close>

definition collection :: "quokka \<Rightarrow> nat list \<Rightarrow> event list" where
  "collection q ms =
     concat (map (\<lambda>m. DetectedFault m #
                        (if detected_fault (mstore q m)
                         then GetData m #
                              map (\<lambda>l. AddToBucket l (get_data (mstore q m))) (loggers q)
                         else [])) ms)"

text \<open>What an importer logs, and what resolving a dotted path in a package gives.\<close>

definition import_log :: "importer \<Rightarrow> event" where
  "import_log imp =
     LogDebug (''Importing '' @ quoted (class_name imp) @ '' from '' @ quoted (module_path imp))"

definition resolve :: "'c package \<Rightarrow> string \<Rightarrow> exn + 'c" where
  "resolve pkg path = fst (klass pkg (ModuleImporter path) [])"

definition listener_events :: "listener_spec list \<Rightarrow> event list" where
  "listener_events ls =
     concat (map (\<lambda>l. [LogInfo (''Attaching listener '' @ quoted (ls_class l)),
                        import_log (ModuleImporter (''core.listeners.'' @ ls_class l))]) ls)"

definition built_listeners :: "string list \<Rightarrow> listener_spec list \<Rightarrow> listener list" where
  "built_listeners lcs ls = map2 (\<lambda>lc l. \<lparr>ln_class = lc, ln_kargs = ls_kargs l\<rparr>) lcs ls"

text \<open>
  An installation with three monitor modules (a console monitor, a web socket monitor and a
  monitor of a kind that \<open>attach_monitors\<close> does not know), one listener module and one logger
  module, and no plugin module.
\<close>

definition console_class :: monitor_class where
  "console_class =
     \<lparr>MONITOR_NAME = ''ConsoleMonitor'', mc_str = ''ConsoleMonitor'', mc_fault = True,
      mc_data = ''crash''\<rparr>"

definition websocket_class :: monitor_class where
  "websocket_class =
     \<lparr>MONITOR_NAME = ''WebSocketMonitor'', mc_str = ''WebSocketMonitor'', mc_fault = False,
      mc_data = []\<rparr>"

definition file_class :: monitor_class where
  "file_class =
     \<lparr>MONITOR_NAME = ''FileMonitor'', mc_str = ''FileMonitor'', mc_fault = False,
      mc_data = []\<rparr>"

definition demo_packages :: packages where
  "demo_packages =
     \<lparr>plugins_pkg = Map.empty,
      monitors_pkg =
        [''core.monitors.console'' \<mapsto> Inr [''ConsoleMonitor'' \<mapsto> console_class],
         ''core.monitors.websocket'' \<mapsto> Inr [''WebSocketMonitor'' \<mapsto> websocket_class],
         ''core.monitors.file'' \<mapsto> Inr [''FileMonitor'' \<mapsto> file_class]],
      listeners_pkg =
        [''core.listeners.console'' \<mapsto> Inr [''ConsoleListener'' \<mapsto> ''ConsoleListener'']],
      loggers_pkg =
        [''core.loggers.filesystem'' \<mapsto> Inr [''FileLogger'' \<mapsto> ''FileLogger'']]\<rparr>"

definition console_spec :: monitor_spec where
  "console_spec =
     \<lparr>ms_class = ''console.ConsoleMonitor'', ms_kargs = [], ms_listeners = []\<rparr>"

definition websocket_spec :: monitor_spec where
  "websocket_spec =
     \<lparr>ms_class = ''websocket.WebSocketMonitor'', ms_kargs = [],
      ms_listeners = [\<lparr>ls_class = ''console.ConsoleListener'', ls_kargs = []\<rparr>]\<rparr>"

definition file_spec :: monitor_spec where
  "file_spec = \<lparr>ms_class = ''file.FileMonitor'', ms_kargs = [], ms_listeners = []\<rparr>"

definition bogus_spec :: monitor_spec where
  "bogus_spec = \<lparr>ms_class = ''bogus.Bogus'', ms_kargs = [], ms_listeners = []\<rparr>"

text \<open>\<^verbatim>\<open>ExternalProcess.__init__\<close> (lines 62-63): no process yet.\<close>

definition unstarted :: extproc where
  "unstarted = \<lparr>process = None, clock = 0, calls = []\<rparr>"

section \<open>Facts about the process model\<close>

lemma poll_Some: "poll p now = (Some c, p') \<Longrightarrow> returncode p' = Some c"
  by (auto simp: poll_def split: option.splits if_splits)

lemma poll_alive: "alive p t \<Longrightarrow> poll p t = (None, p)"
  by (auto simp: alive_def poll_def split: option.splits)

lemma alive_mono: "alive p t \<Longrightarrow> t' \<le> t \<Longrightarrow> alive p t'"
  by (auto simp: alive_def split: option.splits)

lemma extproc_same_process: "process s = Some p \<Longrightarrow> s\<lparr>process := Some p\<rparr> = s"
  by simp

text \<open>A loop that returns a status has cached that status in the handle.\<close>

lemma wait_loop_returncode:
  assumes "wait_loop e i s = Some y"
  shows "\<forall>r s'. y = (Inr (Some r), s') \<longrightarrow> (\<exists>p. process s' = Some p \<and> returncode p = Some r)"
proof (rule wait_loop.raw_induct[where P = "\<lambda>e i s y. \<forall>r s'. y = (Inr (Some r), s') \<longrightarrow>
          (\<exists>p. process s' = Some p \<and> returncode p = Some r)", OF _ assms], goal_cases)
  case (1 wl e i s y)
  show ?case
  proof (intro allI impI)
    fix r s' assume y: "y = (Inr (Some r), s')"
    from 1(2) y obtain p where p: "process s = Some p"
      by (auto split: option.splits)
    obtain res p' where pl: "poll p (clock s) = (res, p')" by (cases "poll p (clock s)")
    show "\<exists>p. process s' = Some p \<and> returncode p = Some r"
    proof (cases res)
      case (Some c)
      with 1(2) y p pl have "c = r" "s' = record_call Poll (s\<lparr>process := Some p'\<rparr>)"
        by (auto simp: Let_def)
      moreover from pl Some have "returncode p' = Some c" by (simp add: poll_Some)
      ultimately show ?thesis by (simp add: record_call_def)
    next
      case None
      with 1(2) y p pl obtain s2 where "wl e i s2 = Some (Inr (Some r), s')"
        by (auto simp: Let_def split: if_splits sum.splits)
      from 1(1)[OF this] show ?thesis by blast
    qed
  qed
qed

text \<open>
  With a positive interval the loop ends: after each sleep the deadline is one interval
  nearer.
\<close>

lemma wait_loop_returns:
  assumes "0 < i"
  shows "\<exists>y. wait_loop e i s = Some y"
proof (induction "nat \<lceil>(e - clock s) / i\<rceil>" arbitrary: s rule: less_induct)
  case less
  show ?case
  proof (cases "process s")
    case None
    then show ?thesis by (subst wait_loop.simps) simp
  next
    case (Some p)
    obtain res p' where pl: "poll p (clock s) = (res, p')" by (cases "poll p (clock s)")
    show ?thesis
    proof (cases "res = None \<and> clock s < e")
      case False
      with Some pl show ?thesis
        by (subst wait_loop.simps) (auto simp: record_call_def Let_def split: option.splits)
    next
      case True
      let ?s2 = "record_call (Sleep i)
                   ((record_call Poll (s\<lparr>process := Some p'\<rparr>))\<lparr>clock := clock s + i\<rparr>)"
      have step: "wait_loop e i s = wait_loop e i ?s2"
        using Some pl True assms
        by (subst wait_loop.simps) (simp add: record_call_def sleep_def)
      have "(e - clock ?s2) / i = (e - clock s) / i - 1"
        using assms by (simp add: record_call_def field_simps)
      moreover have "0 < (e - clock s) / i" using True assms by simp
      ultimately have "nat \<lceil>(e - clock ?s2) / i\<rceil> < nat \<lceil>(e - clock s) / i\<rceil>"
        by (simp add: ceiling_diff_one) linarith?
      from less[OF this] step show ?thesis by simp
    qed
  qed
qed

text \<open>
  A child that is still alive at the \<open>n\<close>-th poll after the first, the first poll at or past
  the deadline, makes the loop break there.
\<close>

lemma wait_loop_deadline:
  assumes "0 < i"
  shows "process s = Some p \<Longrightarrow> alive p (clock s + of_nat n * i) \<Longrightarrow>
         e \<le> clock s + of_nat n * i \<Longrightarrow> (n = 0 \<or> clock s + (of_nat n - 1) * i < e) \<Longrightarrow>
         wait_loop e i s =
           Some (Inr None, s\<lparr>clock := clock s + of_nat n * i, calls := calls s @ loop_calls n i\<rparr>)"
proof (induction n arbitrary: s)
  case 0
  then have "poll p (clock s) = (None, p)" by (simp add: poll_alive)
  with 0 show ?case
    by (subst wait_loop.simps) (simp add: record_call_def)
next
  case (Suc n)
  from Suc.prems(2) assms have al: "alive p (clock s)"
    by (elim alive_mono) (simp add: algebra_simps)
  then have pl: "poll p (clock s) = (None, p)" by (simp add: poll_alive)
  from Suc.prems(4) assms have lt: "clock s < e"
    by (cases n) (auto simp: algebra_simps intro: order.strict_trans1[rotated])
  let ?s2 = "record_call (Sleep i) ((record_call Poll s)\<lparr>clock := clock s + i\<rparr>)"
  have step: "wait_loop e i s = wait_loop e i ?s2"
    using Suc.prems(1) pl lt assms
    by (subst wait_loop.simps) (simp add: record_call_def sleep_def extproc_same_process)
  have "wait_loop e i ?s2 =
     Some (Inr None, ?s2\<lparr>clock := clock ?s2 + of_nat n * i, calls := calls ?s2 @ loop_calls n i\<rparr>)"
  proof (rule Suc.IH)
    show "process ?s2 = Some p" using Suc.prems(1) by (simp add: record_call_def)
    show "alive p (clock ?s2 + of_nat n * i)"
      using Suc.prems(2) by (simp add: record_call_def algebra_simps)
    show "e \<le> clock ?s2 + of_nat n * i"
      using Suc.prems(3) by (simp add: record_call_def algebra_simps)
    show "n = 0 \<or> clock ?s2 + (of_nat n - 1) * i < e"
      using Suc.prems(4) by (simp add: record_call_def algebra_simps)
  qed
  with step show ?case
    by (simp add: record_call_def algebra_simps)
qed

lemma process_wait_returncode:
  "process_wait s = Some (Inr v, s') \<Longrightarrow> \<exists>p c. process s' = Some p \<and> returncode p = Some c"
  by (auto simp: process_wait_def popen_wait_def record_call_def split: option.splits prod.splits)

lemma is_running_exited:
  "process s = Some p \<Longrightarrow> returncode p = Some c \<Longrightarrow> fst (is_running s) = False"
  by (simp add: is_running_def poll_def)

lemma wait_returns_exited:
  "wait timeout s = Some (Inr v, s') \<Longrightarrow> \<exists>p c. process s' = Some p \<and> returncode p = Some c"
  unfolding wait_def
  by (auto simp: Let_def split: option.splits if_splits sum.splits prod.splits
      dest: process_wait_returncode wait_loop_returncode[rule_format, OF _ refl])

section \<open>\<^verbatim>\<open>ExternalProcess.wait\<close>, \<^verbatim>\<open>stop\<close> and \<^verbatim>\<open>is_running\<close>\<close>

text \<open>
  Claim C1. When the deadline of a call with a positive timeout passes, \<open>wait\<close> calls
  \<open>stop\<close> and then blocks in \<^verbatim>\<open>Popen.wait()\<close>; the claim says that it returns the status
  that the forced kill produces. Line 94 drops that status. For a child that never exits by
  itself and ignores SIGTERM, and a timeout of one second, the loop polls 1001 times, \<open>stop\<close>
  sends both signals, the final wait finds status \<open>-9\<close>, and what \<open>wait\<close> returns is
  \<^verbatim>\<open>None\<close>.
\<close>

theorem wait_deadline_returns_None:
  "wait (Some 1)
     \<lparr>process = Some \<lparr>returncode = None, child_exit = None,
                        on_terminate = SigIgnored, on_kill = SigKills\<rparr>,
      clock = 0, calls = []\<rparr> =
   Some (Inr PyNone,
     \<lparr>process = Some \<lparr>returncode = Some (- 9), child_exit = Some (1, - 9),
                        on_terminate = SigIgnored, on_kill = SigKills\<rparr>,
      clock = 1, calls = loop_calls 1000 (1 / 1000) @ [Terminate, Kill, Wait]\<rparr>)"
proof -
  let ?p = "\<lparr>returncode = None, child_exit = None, on_terminate = SigIgnored,
             on_kill = SigKills\<rparr>"
  let ?s = "\<lparr>process = Some ?p, clock = 0, calls = []\<rparr>"
  have "wait_loop 1 (1 / 1000) ?s =
      Some (Inr None, ?s\<lparr>clock := clock ?s + of_nat 1000 * (1 / 1000),
                          calls := calls ?s @ loop_calls 1000 (1 / 1000)\<rparr>)"
    by (rule wait_loop_deadline[where p = ?p]) (simp_all add: alive_def)
  then have loop: "wait_loop 1 (1 / 1000) ?s =
      Some (Inr None, \<lparr>process = Some ?p, clock = 1, calls = loop_calls 1000 (1 / 1000)\<rparr>)"
    by simp
  show ?thesis
    unfolding wait_def
    by (simp add: loop stop_def stop_body_def terminate_def kill_def send_signal_def poll_def
        process_wait_def popen_wait_def record_call_def Let_def del: loop_calls.simps)
qed

text \<open>
  Claim C2 says that a call with the timeout absent or zero blocks until the process has
  exited. A call that passes no timeout gets the default 600 and takes the polling path: a
  child that would exit by itself after 1000 seconds with status 0 is polled for 600 seconds
  and then terminated.
\<close>

theorem wait_default_timeout_kills:
  "wait (wait_timeout_arg None)
     \<lparr>process = Some \<lparr>returncode = None, child_exit = Some (1000, 0),
                        on_terminate = SigKills, on_kill = SigKills\<rparr>,
      clock = 0, calls = []\<rparr> =
   Some (Inr PyNone,
     \<lparr>process = Some \<lparr>returncode = Some (- 15), child_exit = Some (600, - 15),
                        on_terminate = SigKills, on_kill = SigKills\<rparr>,
      clock = 600, calls = loop_calls 2400 (1 / 4) @ [Terminate, Kill, Wait]\<rparr>)"
proof -
  let ?p = "\<lparr>returncode = None, child_exit = Some (1000, 0), on_terminate = SigKills,
             on_kill = SigKills\<rparr>"
  let ?s = "\<lparr>process = Some ?p, clock = 0, calls = []\<rparr>"
  have "wait_loop 600 (1 / 4) ?s =
      Some (Inr None, ?s\<lparr>clock := clock ?s + of_nat 2400 * (1 / 4),
                          calls := calls ?s @ loop_calls 2400 (1 / 4)\<rparr>)"
    by (rule wait_loop_deadline[where p = ?p]) (simp_all add: alive_def)
  then have loop: "wait_loop 600 (1 / 4) ?s =
      Some (Inr None, \<lparr>process = Some ?p, clock = 600, calls = loop_calls 2400 (1 / 4)\<rparr>)"
    by simp
  show ?thesis
    unfolding wait_def wait_timeout_arg_def
    by (simp add: loop stop_def stop_body_def terminate_def kill_def send_signal_def poll_def
        process_wait_def popen_wait_def record_call_def Let_def del: loop_calls.simps)
qed

text \<open>
  Claim C2, amended. With the timeout zero or \<^verbatim>\<open>None\<close>, \<open>wait\<close> makes one blocking
  \<^verbatim>\<open>Popen.wait()\<close> call and nothing else: it never returns while the child runs for ever,
  it returns when the child has exited, not before the time of the exit, with the child's
  status cached in the handle, and at once when the status was cached already. A call that
  passes no timeout is a call with timeout 600.
\<close>

theorem wait_unbounded_blocks:
  assumes "timeout = None \<or> timeout = Some 0" and "process s = Some p"
  shows "(returncode p = None \<and> child_exit p = None \<longrightarrow> wait timeout s = None) \<and>
         (\<forall>t c. returncode p = None \<and> child_exit p = Some (t, c) \<longrightarrow>
            (\<exists>v. wait timeout s =
               Some (Inr v, s\<lparr>process := Some (p\<lparr>returncode := Some c\<rparr>),
                               clock := max (clock s) t, calls := calls s @ [Wait]\<rparr>))) \<and>
         (\<forall>c. returncode p = Some c \<longrightarrow>
            (\<exists>v. wait timeout s = Some (Inr v, s\<lparr>calls := calls s @ [Wait]\<rparr>))) \<and>
         wait (wait_timeout_arg None) s = wait (Some 600) s"
  using assms
  by (auto simp: wait_def wait_timeout_arg_def process_wait_def popen_wait_def record_call_def)

theorem wait_unbounded_blocks_witness:
  "(Some (0::rat) = None \<or> Some (0::rat) = Some 0) \<and>
   (\<exists>v. wait (Some 0)
      \<lparr>process = Some \<lparr>returncode = None, child_exit = Some (5, 0),
                         on_terminate = SigKills, on_kill = SigKills\<rparr>,
       clock = 0, calls = []\<rparr> =
     Some (Inr v,
      \<lparr>process = Some \<lparr>returncode = Some 0, child_exit = Some (5, 0),
                         on_terminate = SigKills, on_kill = SigKills\<rparr>,
       clock = 5, calls = [Wait]\<rparr>))"
  using wait_unbounded_blocks[of "Some 0"
      "\<lparr>process = Some \<lparr>returncode = None, child_exit = Some (5, 0),
                         on_terminate = SigKills, on_kill = SigKills\<rparr>,
        clock = 0, calls = []\<rparr>"
      "\<lparr>returncode = None, child_exit = Some (5, 0),
        on_terminate = SigKills, on_kill = SigKills\<rparr>"]
  by simp

text \<open>
  Claim C8 says that in every state \<open>stop\<close> attempts a graceful termination and then a
  forceful kill. On an \<^verbatim>\<open>ExternalProcess\<close> that was never started the guard of line 116
  skips both; and when \<^verbatim>\<open>terminate()\<close> raises, the handler runs at once and \<^verbatim>\<open>kill()\<close>
  is not attempted.
\<close>

theorem stop_unstarted_attempts_nothing:
  "stop \<lparr>process = None, clock = 0, calls = []\<rparr> =
     (Inr (), \<lparr>process = None, clock = 0, calls = []\<rparr>) \<and>
   calls (snd (stop \<lparr>process = Some \<lparr>returncode = None, child_exit = None,
                                       on_terminate = SigFails ''EPERM'',
                                       on_kill = SigFails ''EPERM''\<rparr>,
                      clock = 0, calls = []\<rparr>)) = [Terminate, LogError ''EPERM'']"
  by (simp add: stop_def stop_body_def terminate_def send_signal_def record_call_def)

text \<open>
  Claim C8, amended. \<open>stop\<close> never raises. Without a process it does nothing. With a
  process it calls \<^verbatim>\<open>terminate()\<close> and, when that call has not raised, \<^verbatim>\<open>kill()\<close> right
  after it; an error raised by either call is logged and the method returns.
\<close>

theorem stop_never_raises:
  "fst (stop s) = Inr () \<and>
   calls (snd (stop s)) = calls s @
     (case process s of
        None \<Rightarrow> []
      | Some p \<Rightarrow>
          (case on_terminate p of
             SigFails m \<Rightarrow> [Terminate, LogError m]
           | _ \<Rightarrow>
               (case on_kill p of
                  SigFails m \<Rightarrow> [Terminate, Kill, LogError m]
                | _ \<Rightarrow> [Terminate, Kill])))"
  by (auto simp: stop_def stop_body_def terminate_def kill_def send_signal_def record_call_def
      Let_def split: option.splits sigeffect.splits sum.splits prod.splits if_splits)

theorem stop_never_raises_witness:
  "fst (stop \<lparr>process = Some \<lparr>returncode = None, child_exit = None,
                                on_terminate = SigKills, on_kill = SigFails ''ESRCH''\<rparr>,
              clock = 0, calls = []\<rparr>) = Inr () \<and>
   calls (snd (stop \<lparr>process = Some \<lparr>returncode = None, child_exit = None,
                                on_terminate = SigKills, on_kill = SigFails ''ESRCH''\<rparr>,
              clock = 0, calls = []\<rparr>)) = [Terminate, Kill, LogError ''ESRCH'']"
  using stop_never_raises[of
      "\<lparr>process = Some \<lparr>returncode = None, child_exit = None,
                         on_terminate = SigKills, on_kill = SigFails ''ESRCH''\<rparr>,
        clock = 0, calls = []\<rparr>"]
  by simp

text \<open>
  Claim C9. \<open>is_running\<close> answers false when no process was started or when the status
  check \<open>poll\<close> finds a status, and true otherwise; and on every path on which \<open>wait\<close>
  returns, \<open>is_running\<close> is false in the state that \<open>wait\<close> leaves.
\<close>

theorem is_running_after_wait:
  "fst (is_running s) =
     (case process s of None \<Rightarrow> False | Some p \<Rightarrow> fst (poll p (clock s)) = None) \<and>
   (wait timeout s = Some (Inr v, s') \<longrightarrow> fst (is_running s') = False)"
proof
  show "fst (is_running s) =
     (case process s of None \<Rightarrow> False | Some p \<Rightarrow> fst (poll p (clock s)) = None)"
    by (simp add: is_running_def split: option.splits prod.splits)
  show "wait timeout s = Some (Inr v, s') \<longrightarrow> fst (is_running s') = False"
  proof
    assume "wait timeout s = Some (Inr v, s')"
    then obtain p c where "process s' = Some p" "returncode p = Some c"
      using wait_returns_exited by blast
    then show "fst (is_running s') = False" by (rule is_running_exited)
  qed
qed

theorem is_running_after_wait_witness:
  "wait (Some 0)
      \<lparr>process = Some \<lparr>returncode = None, child_exit = Some (5, 0),
                         on_terminate = SigKills, on_kill = SigKills\<rparr>,
       clock = 0, calls = []\<rparr> =
     Some (Inr PyNone,
      \<lparr>process = Some \<lparr>returncode = Some 0, child_exit = Some (5, 0),
                         on_terminate = SigKills, on_kill = SigKills\<rparr>,
       clock = 5, calls = [Wait]\<rparr>) \<and>
   fst (is_running
      \<lparr>process = Some \<lparr>returncode = Some 0, child_exit = Some (5, 0),
                         on_terminate = SigKills, on_kill = SigKills\<rparr>,
       clock = 5, calls = [Wait]\<rparr>) = False"
proof -
  have w: "wait (Some 0)
      \<lparr>process = Some \<lparr>returncode = None, child_exit = Some (5, 0),
                         on_terminate = SigKills, on_kill = SigKills\<rparr>,
       clock = 0, calls = []\<rparr> =
     Some (Inr PyNone,
      \<lparr>process = Some \<lparr>returncode = Some 0, child_exit = Some (5, 0),
                         on_terminate = SigKills, on_kill = SigKills\<rparr>,
       clock = 5, calls = [Wait]\<rparr>)"
    by (simp add: wait_def process_wait_def popen_wait_def record_call_def)
  from is_running_after_wait[THEN conjunct2, rule_format, OF w] w show ?thesis
    by (rule conjI[rotated])
qed

section \<open>\<^verbatim>\<open>ExternalProcess.set_environ\<close>: the environment\<close>

lemma setitem_entry:
  "entry I (key, val) = Some (k, s) \<Longrightarrow>
   (case val of PyDict d \<Rightarrow> environ_setitem I key (PyStr (serialize_dict I d)) env
    | _ \<Rightarrow> environ_setitem I key val env) = Inr (env(k \<mapsto> s))"
  by (cases key; cases val) (auto split: if_splits)

lemma setitem_no_entry:
  "entry I (key, val) = None \<Longrightarrow>
   \<exists>e. (case val of PyDict d \<Rightarrow> environ_setitem I key (PyStr (serialize_dict I d)) env
        | _ \<Rightarrow> environ_setitem I key val env) = Inl e"
  by (cases key; cases val) (auto split: if_splits option.splits)


text \<open>The items that are written before the first one that raises stay written.\<close>

lemma set_environ_loop_append:
  "entries I pre = Some es \<Longrightarrow>
     set_environ_loop I (pre @ rest) env = set_environ_loop I rest (env ++ map_of (rev es))"
proof (induction pre arbitrary: env es)
  case Nil
  then show ?case by simp
next
  case (Cons x xs)
  obtain key val where x: "x = (key, val)" by (cases x)
  from Cons.prems x obtain k s es' where e: "entry I (key, val) = Some (k, s)"
    and es': "entries I xs = Some es'" and es: "es = (k, s) # es'"
    by (auto split: option.splits)
  have "set_environ_loop I ((x # xs) @ rest) env = set_environ_loop I (xs @ rest) (env(k \<mapsto> s))"
    using setitem_entry[OF e, of env] x by simp
  also have "\<dots> = set_environ_loop I rest (env(k \<mapsto> s) ++ map_of (rev es'))"
    by (rule Cons.IH[OF es'])
  also have "env(k \<mapsto> s) ++ map_of (rev es') = env ++ map_of (rev es)"
    unfolding es by (rule ext) (simp add: map_add_def split: option.splits)
  finally show ?case .
qed

lemma set_environ_loop_entries:
  "entries I items = Some es \<Longrightarrow>
     set_environ_loop I items env = (Inr (), env ++ map_of (rev es))"
  using set_environ_loop_append[of I items es "[]" env] by simp

lemma set_environ_loop_fails:
  "entries I items = None \<Longrightarrow> \<exists>e. fst (set_environ_loop I items env) = Inl e"
proof (induction items arbitrary: env)
  case Nil
  then show ?case by simp
next
  case (Cons x xs)
  obtain key val where x: "x = (key, val)" by (cases x)
  show ?case
  proof (cases "entry I (key, val)")
    case None
    from setitem_no_entry[OF None, of env] obtain e where
      "(case val of PyDict d \<Rightarrow> environ_setitem I key (PyStr (serialize_dict I d)) env
        | _ \<Rightarrow> environ_setitem I key val env) = Inl e"
      by blast
    with x show ?thesis by simp
  next
    case (Some e)
    obtain k s where ks: "e = (k, s)" by (cases e)
    from Cons.prems Some x have none: "entries I xs = None" by (auto split: option.splits)
    have "set_environ_loop I (x # xs) env = set_environ_loop I xs (env(k \<mapsto> s))"
      using setitem_entry[OF Some[unfolded ks], of env] x by simp
    then show ?thesis by (simp only: Cons.IH[OF none])
  qed
qed




lemma set_environ_entries:
  "entries I items = Some es \<Longrightarrow>
   set_environ I (Some items) env = (Inr (env ++ map_of (rev es)), env ++ map_of (rev es))"
  by (simp add: set_environ_def set_environ_loop_entries)

lemma set_environ_fails:
  "entries I items = None \<Longrightarrow> \<exists>e. fst (set_environ I (Some items) env) = Inl e"
  using set_environ_loop_fails[of I items env]
  by (cases "set_environ_loop I items env") (auto simp: set_environ_def split: sum.splits)


lemmas cpython3_simps =
  cpython3_def posix_putenv_def serialize_dict_def int_str_def digit_char_def str_repr_def
  escape_char_def Let_def

text \<open>
  Claim C5 says that with a context \<open>set_environ\<close> works on a copy and leaves the
  environment of the process as it was. Line 98 binds \<^verbatim>\<open>env\<close> to \<^verbatim>\<open>os.environ\<close> itself:
  after a call with the context \<^verbatim>\<open>{"X": "1"}\<close> on an empty environment, the environment
  of the process is no longer empty.
\<close>

theorem set_environ_mutates_os_environ:
  "snd (set_environ cpython3 (Some [(PyStr ''X'', PyStr ''1'')]) Map.empty) \<noteq> Map.empty"
  by (simp add: set_environ_def cpython3_simps)

text \<open>
  Claim C5, amended. Without a context \<open>set_environ\<close> returns the environment of the process
  and changes nothing. With a context all of whose items \<^verbatim>\<open>os.environ\<close> accepts (each key a
  string, each value a string or a dictionary, and \<^verbatim>\<open>putenv\<close> accepting the key with the
  string to store), it writes every item of the context into the environment of the process
  itself, a later item over an earlier one and over what was inherited, and returns that
  same environment. With any other context the call raises.
\<close>

theorem set_environ_overlay:
  "set_environ I None env = (Inr env, env) \<and>
   (entries I items = Some es \<longrightarrow>
      set_environ I (Some items) env = (Inr (env ++ map_of (rev es)), env ++ map_of (rev es))) \<and>
   (entries I items = None \<longrightarrow> (\<exists>e. fst (set_environ I (Some items) env) = Inl e))"
proof (intro conjI impI)
  show "set_environ I None env = (Inr env, env)"
    by (simp add: set_environ_def)
next
  assume "entries I items = Some es"
  then show "set_environ I (Some items) env =
      (Inr (env ++ map_of (rev es)), env ++ map_of (rev es))"
    by (rule set_environ_entries)
next
  assume "entries I items = None"
  then show "\<exists>e. fst (set_environ I (Some items) env) = Inl e"
    by (rule set_environ_fails)
qed

theorem set_environ_overlay_witness:
  "entries cpython3 [(PyStr ''X'', PyStr ''1''), (PyStr ''HOME'', PyStr ''/tmp'')] =
     Some [(''X'', ''1''), (''HOME'', ''/tmp'')] \<and>
   set_environ cpython3 (Some [(PyStr ''X'', PyStr ''1''), (PyStr ''HOME'', PyStr ''/tmp'')])
       [''HOME'' \<mapsto> ''/root'', ''PATH'' \<mapsto> ''/bin''] =
     (Inr ([''HOME'' \<mapsto> ''/root'', ''PATH'' \<mapsto> ''/bin''] ++
             map_of (rev [(''X'', ''1''), (''HOME'', ''/tmp'')])),
      [''HOME'' \<mapsto> ''/root'', ''PATH'' \<mapsto> ''/bin''] ++
        map_of (rev [(''X'', ''1''), (''HOME'', ''/tmp'')])) \<and>
   entries cpython3 [(PyStr ''A=B'', PyStr ''x'')] = None \<and>
   (\<exists>e. fst (set_environ cpython3 (Some [(PyStr ''A=B'', PyStr ''x'')])
               [''HOME'' \<mapsto> ''/root'', ''PATH'' \<mapsto> ''/bin'']) = Inl e)"
proof -
  have e: "entries cpython3 [(PyStr ''X'', PyStr ''1''), (PyStr ''HOME'', PyStr ''/tmp'')] =
     Some [(''X'', ''1''), (''HOME'', ''/tmp'')]"
    by (simp add: cpython3_simps)
  have n: "entries cpython3 [(PyStr ''A=B'', PyStr ''x'')] = None"
    by (simp add: cpython3_simps)
  note t = set_environ_overlay[of cpython3 "[''HOME'' \<mapsto> ''/root'', ''PATH'' \<mapsto> ''/bin'']"]
  from t[THEN conjunct2, THEN conjunct1, rule_format, OF e]
       t[THEN conjunct2, THEN conjunct2, rule_format, OF n] e n
  show ?thesis by (intro conjI)
qed




section \<open>\<^verbatim>\<open>Quokka\<close>: attaching monitors, running the plugin, detecting faults\<close>

lemma log_event_simps [simp]:
  "events (log_event e q) = events q @ [e]"
  "monitors (log_event e q) = monitors q"
  "loggers (log_event e q) = loggers q"
  "mstore (log_event e q) = mstore q"
  "lstore (log_event e q) = lstore q"
  "mnext (log_event e q) = mnext q"
  "lnext (log_event e q) = lnext q"
  "plugin (log_event e q) = plugin q"
  by (simp_all add: log_event_def)

lemma deliver_frame:
  "events (deliver d ls q) = events q @ map (\<lambda>l. AddToBucket l d) ls \<and>
   monitors (deliver d ls q) = monitors q \<and> loggers (deliver d ls q) = loggers q \<and>
   mstore (deliver d ls q) = mstore q"
  by (induction ls arbitrary: q) simp_all

lemma deliver_lstore:
  "distinct ls \<Longrightarrow>
   lstore (deliver d ls q) l = (if l \<in> set ls then add_to_bucket d (lstore q l) else lstore q l)"
  by (induction ls arbitrary: q) auto

lemma collection_cong:
  "mstore q' = mstore q \<Longrightarrow> loggers q' = loggers q \<Longrightarrow> collection q' ms = collection q ms"
  by (simp add: collection_def cong: if_cong)

lemma collect_frame:
  "events (collect ms q) = events q @ collection q ms \<and>
   monitors (collect ms q) = monitors q \<and> loggers (collect ms q) = loggers q \<and>
   mstore (collect ms q) = mstore q"
proof (induction ms arbitrary: q)
  case Nil
  show ?case by (simp add: collection_def)
next
  case (Cons m ms)
  show ?case
  proof (cases "detected_fault (mstore q m)")
    case True
    let ?q2 = "deliver (get_data (mstore q m)) (loggers q)
                 (log_event (GetData m) (log_event (DetectedFault m) q))"
    have c: "collect (m # ms) q = collect ms ?q2"
      using True by (simp add: Let_def)
    have f: "events ?q2 = events q @ DetectedFault m # GetData m #
               map (\<lambda>l. AddToBucket l (get_data (mstore q m))) (loggers q)"
      "monitors ?q2 = monitors q" "loggers ?q2 = loggers q" "mstore ?q2 = mstore q"
      by (simp_all add: deliver_frame)
    have g: "collection ?q2 ms = collection q ms"
      by (rule collection_cong[OF f(4) f(3)])
    have h: "collection q (m # ms) = DetectedFault m # GetData m #
               map (\<lambda>l. AddToBucket l (get_data (mstore q m))) (loggers q) @ collection q ms"
      using True by (simp add: collection_def)
    from Cons.IH[of ?q2] show ?thesis
      unfolding c g h f by simp
  next
    case False
    let ?q1 = "log_event (DetectedFault m) q"
    have c: "collect (m # ms) q = collect ms ?q1"
      using False by (simp add: Let_def)
    have g: "collection ?q1 ms = collection q ms"
      by (rule collection_cong) simp_all
    have h: "collection q (m # ms) = DetectedFault m # collection q ms"
      using False by (simp add: collection_def)
    from Cons.IH[of ?q1] show ?thesis
      unfolding c g h by simp
  qed
qed

lemma collect_lstore:
  "distinct (loggers q) \<Longrightarrow> l \<in> set (loggers q) \<Longrightarrow>
   lstore (collect ms q) l =
     (lstore q l)\<lparr>lg_bucket := lg_bucket (lstore q l) @
        map (\<lambda>m. get_data (mstore q m)) (filter (\<lambda>m. detected_fault (mstore q m)) ms)\<rparr>"
proof (induction ms arbitrary: q)
  case Nil
  show ?case by simp
next
  case (Cons m ms)
  show ?case
  proof (cases "detected_fault (mstore q m)")
    case True
    let ?q2 = "deliver (get_data (mstore q m)) (loggers q)
                 (log_event (GetData m) (log_event (DetectedFault m) q))"
    have c: "collect (m # ms) q = collect ms ?q2"
      using True by (simp add: Let_def)
    have f: "loggers ?q2 = loggers q" "mstore ?q2 = mstore q"
      by (simp_all add: deliver_frame)
    have l: "lstore ?q2 l = add_to_bucket (get_data (mstore q m)) (lstore q l)"
      using Cons.prems by (simp add: deliver_lstore)
    have "lstore (collect ms ?q2) l = (lstore ?q2 l)\<lparr>lg_bucket := lg_bucket (lstore ?q2 l) @
        map (\<lambda>m. get_data (mstore ?q2 m)) (filter (\<lambda>m. detected_fault (mstore ?q2 m)) ms)\<rparr>"
      by (rule Cons.IH) (simp_all only: f Cons.prems)
    then show ?thesis
      unfolding c f l using True by (simp add: add_to_bucket_def)
  next
    case False
    let ?q1 = "log_event (DetectedFault m) q"
    have c: "collect (m # ms) q = collect ms ?q1"
      using False by (simp add: Let_def)
    show ?thesis
      unfolding c using Cons.IH[of ?q1] Cons.prems False
      by simp
  qed
qed

lemma finalize_frame:
  "events (finalize ls q) = events q @ map AddFault ls \<and>
   monitors (finalize ls q) = monitors q \<and> loggers (finalize ls q) = loggers q \<and>
   mstore (finalize ls q) = mstore q"
  by (induction ls arbitrary: q) simp_all

lemma finalize_lstore:
  "distinct ls \<Longrightarrow>
   lstore (finalize ls q) l = (if l \<in> set ls then add_fault (lstore q l) else lstore q l)"
  by (induction ls arbitrary: q) auto

text \<open>
  Claim C3. \<open>detect_faults\<close> visits the recorded monitors in order; for each monitor that
  reports a fault it fetches the fault record once and hands it to every recorded logger in
  order; only after the last monitor does it call \<^verbatim>\<open>add_fault\<close>, once for every recorded
  logger, in order. When the recorded loggers are distinct objects, the bucket of each has
  grown by the records of the faulting monitors, in order, and each has committed once.
\<close>

theorem detect_faults_two_phases:
  "events (detect_faults q) =
     events q @
     concat (map (\<lambda>m. DetectedFault m #
                        (if detected_fault (mstore q m)
                         then GetData m #
                              map (\<lambda>l. AddToBucket l (get_data (mstore q m))) (loggers q)
                         else [])) (monitors q)) @
     map AddFault (loggers q) \<and>
   (distinct (loggers q) \<longrightarrow>
      (\<forall>l \<in> set (loggers q).
         lg_bucket (lstore (detect_faults q) l) =
           lg_bucket (lstore q l) @
           map (\<lambda>m. get_data (mstore q m))
             (filter (\<lambda>m. detected_fault (mstore q m)) (monitors q)) \<and>
         lg_faults (lstore (detect_faults q) l) = Suc (lg_faults (lstore q l))))"
proof (intro conjI impI ballI)
  show "events (detect_faults q) =
     events q @
     concat (map (\<lambda>m. DetectedFault m #
                        (if detected_fault (mstore q m)
                         then GetData m #
                              map (\<lambda>l. AddToBucket l (get_data (mstore q m))) (loggers q)
                         else [])) (monitors q)) @
     map AddFault (loggers q)"
    by (simp add: detect_faults_def Let_def finalize_frame collect_frame collection_def)
next
  fix l assume d: "distinct (loggers q)" and l: "l \<in> set (loggers q)"
  have "lstore (detect_faults q) l = add_fault (lstore (collect (monitors q) q) l)"
    using d l by (simp add: detect_faults_def Let_def finalize_lstore collect_frame)
  then have *: "lstore (detect_faults q) l =
      add_fault ((lstore q l)\<lparr>lg_bucket := lg_bucket (lstore q l) @
        map (\<lambda>m. get_data (mstore q m))
          (filter (\<lambda>m. detected_fault (mstore q m)) (monitors q))\<rparr>)"
    using d l by (simp add: collect_lstore)
  show "lg_bucket (lstore (detect_faults q) l) =
           lg_bucket (lstore q l) @
           map (\<lambda>m. get_data (mstore q m))
             (filter (\<lambda>m. detected_fault (mstore q m)) (monitors q))"
    by (simp add: * add_fault_def)
  show "lg_faults (lstore (detect_faults q) l) = Suc (lg_faults (lstore q l))"
    by (simp add: * add_fault_def)
qed

theorem detect_faults_two_phases_witness:
  "distinct [0::nat, 1] \<and>
   events (detect_faults
     (quokka_init\<lparr>monitors := [0, 1], loggers := [0, 1],
        mstore := (mstore quokka_init)(0 := new_monitor console_class None [])\<rparr>)) =
     [DetectedFault 0, GetData 0, AddToBucket 0 ''crash'', AddToBucket 1 ''crash'',
      DetectedFault 1, AddFault 0, AddFault 1] \<and>
   lg_bucket (lstore (detect_faults
     (quokka_init\<lparr>monitors := [0, 1], loggers := [0, 1],
        mstore := (mstore quokka_init)(0 := new_monitor console_class None [])\<rparr>)) 1) =
     [''crash''] \<and>
   lg_faults (lstore (detect_faults
     (quokka_init\<lparr>monitors := [0, 1], loggers := [0, 1],
        mstore := (mstore quokka_init)(0 := new_monitor console_class None [])\<rparr>)) 1) = 1"
  using detect_faults_two_phases[of
      "quokka_init\<lparr>monitors := [0, 1], loggers := [0, 1],
        mstore := (mstore quokka_init)(0 := new_monitor console_class None [])\<rparr>"]
  by (simp add: quokka_init_def detected_fault_def get_data_def new_monitor_def
      console_class_def blank_monitor_def new_logger_def)

lemma klass_resolve:
  "klass pkg (ModuleImporter path) evs =
     (resolve pkg path, evs @ [import_log (ModuleImporter path)])"
  by (simp add: klass_def resolve_def import_log_def Let_def split: option.splits sum.splits)

lemma attach_listeners_bound:
  "map (\<lambda>l. resolve (listeners_pkg pk) (''core.listeners.'' @ ls_class l)) ls = map Inr lcs \<Longrightarrow>
   attach_listeners pk ls (Some r) q =
     (Inr (), q\<lparr>events := events q @ listener_events ls,
                mstore := (mstore q)(r := (mstore q r)\<lparr>mn_listeners :=
                             mn_listeners (mstore q r) @ built_listeners lcs ls\<rparr>)\<rparr>)"
proof (induction ls arbitrary: q lcs)
  case Nil
  then show ?case by (simp add: listener_events_def built_listeners_def)
next
  case (Cons l ls)
  from Cons.prems obtain lc lcs' where lcs: "lcs = lc # lcs'"
    and r: "resolve (listeners_pkg pk) (''core.listeners.'' @ ls_class l) = Inr lc"
    and rest: "map (\<lambda>l. resolve (listeners_pkg pk) (''core.listeners.'' @ ls_class l)) ls =
               map Inr lcs'"
    by (cases lcs) auto
  let ?q' = "q\<lparr>events := events q @ listener_events [l],
                mstore := (mstore q)(r :=
                  add_listener \<lparr>ln_class = lc, ln_kargs = ls_kargs l\<rparr> (mstore q r))\<rparr>"
  have "attach_listeners pk (l # ls) (Some r) q = attach_listeners pk ls (Some r) ?q'"
    using r by (simp add: klass_resolve Let_def listener_events_def log_event_def)
  also have "\<dots> = (Inr (), ?q'\<lparr>events := events ?q' @ listener_events ls,
                mstore := (mstore ?q')(r := (mstore ?q' r)\<lparr>mn_listeners :=
                             mn_listeners (mstore ?q' r) @ built_listeners lcs' ls\<rparr>)\<rparr>)"
    by (rule Cons.IH[OF rest])
  also have "\<dots> = (Inr (), q\<lparr>events := events q @ listener_events (l # ls),
                mstore := (mstore q)(r := (mstore q r)\<lparr>mn_listeners :=
                             mn_listeners (mstore q r) @ built_listeners lcs (l # ls)\<rparr>)\<rparr>)"
    by (simp add: lcs listener_events_def built_listeners_def add_listener_def)
  finally show ?case .
qed

lemma attach_listeners_unbound:
  "map (\<lambda>l. resolve (listeners_pkg pk) (''core.listeners.'' @ ls_class l)) ls = map Inr lcs \<Longrightarrow>
   ls \<noteq> [] \<Longrightarrow>
   fst (attach_listeners pk ls None q) = Inl (UnboundLocalError ''monitor_instance'')"
  by (cases ls; cases lcs) (auto simp: klass_resolve Let_def)

lemmas demo_simps =
  demo_packages_def console_class_def websocket_class_def file_class_def console_spec_def
  websocket_spec_def file_spec_def bogus_spec_def unstarted_def quokka_init_def
  blank_monitor_def new_monitor_def new_logger_def resolve_def klass_def ModuleImporter_def
  import_log_def quoted_def attach_monitors_def attach_instance_def monitor_start_def
  add_listener_def log_event_def Let_def

text \<open>
  Claim C4 says that a monitor whose identifier is not recognized is reported and skipped.
  Line 195 imports the class outside any \<^verbatim>\<open>try\<close>: with the monitors \<^verbatim>\<open>bogus.Bogus\<close>, for
  which there is no module, and the console monitor, \<open>attach_monitors\<close> raises
  \<open>ImportError\<close> at the first and never attaches the second.
\<close>

theorem attach_monitors_unresolved_aborts:
  "fst (attach_monitors demo_packages unstarted [bogus_spec, console_spec] quokka_init) =
     Inl (ImportError ''core.monitors.bogus'') \<and>
   monitors (snd (attach_monitors demo_packages unstarted [bogus_spec, console_spec]
                    quokka_init)) = []"
  by (simp add: demo_simps)

text \<open>
  Claim C4, amended. A monitor whose identifier resolves to a class of a kind other than
  \<^verbatim>\<open>ConsoleMonitor\<close> and \<^verbatim>\<open>WebSocketMonitor\<close> is reported with a warning and skipped:
  nothing is constructed or recorded for it, and the loop goes on with the monitors after
  it. (An identifier that does not resolve raises the import error.)
\<close>

theorem attach_monitors_skips_unsupported:
  assumes "resolve (monitors_pkg pk) (''core.monitors.'' @ ms_class m) = Inr mc"
    and "MONITOR_NAME mc \<noteq> ''ConsoleMonitor''" and "MONITOR_NAME mc \<noteq> ''WebSocketMonitor''"
  shows "attach_monitors_loop pk plg (m # ms) inst q =
         attach_monitors_loop pk plg ms inst
           (q\<lparr>events := events q @
                 [LogInfo (''Attaching monitor '' @ quoted (ms_class m)),
                  import_log (ModuleImporter (''core.monitors.'' @ ms_class m)),
                  LogWarning (''Unsupported monitor: '' @ mc_str mc)]\<rparr>)"
  using assms by (simp add: klass_resolve Let_def log_event_def)

theorem attach_monitors_skips_unsupported_witness:
  "resolve (monitors_pkg demo_packages) (''core.monitors.'' @ ms_class file_spec) =
     Inr file_class \<and>
   MONITOR_NAME file_class \<noteq> ''ConsoleMonitor'' \<and>
   MONITOR_NAME file_class \<noteq> ''WebSocketMonitor'' \<and>
   attach_monitors_loop demo_packages unstarted (file_spec # [console_spec]) None quokka_init =
     attach_monitors_loop demo_packages unstarted [console_spec] None
       (quokka_init\<lparr>events := events quokka_init @
          [LogInfo (''Attaching monitor '' @ quoted (ms_class file_spec)),
           import_log (ModuleImporter (''core.monitors.'' @ ms_class file_spec)),
           LogWarning (''Unsupported monitor: '' @ mc_str file_class)]\<rparr>)"
proof -
  have r: "resolve (monitors_pkg demo_packages) (''core.monitors.'' @ ms_class file_spec) =
     Inr file_class"
    by (simp add: demo_packages_def file_spec_def resolve_def klass_def ModuleImporter_def)
  have n: "MONITOR_NAME file_class \<noteq> ''ConsoleMonitor''"
    "MONITOR_NAME file_class \<noteq> ''WebSocketMonitor''"
    by (simp_all add: file_class_def)
  from attach_monitors_skips_unsupported[OF r n] r n show ?thesis
    by blast
qed

text \<open>
  Claim C7 says that a plugin identifier that does not resolve makes \<open>run_plugin\<close> raise
  an error that wraps the cause in a descriptive message. The handler of line 149 catches
  \<open>PluginException\<close> only, and what a failed import raises is \<open>ImportError\<close>: with the
  plugin \<^verbatim>\<open>nosuch.Plugin\<close>, for which there is no module, \<open>run_plugin\<close> raises the bare
  \<open>ImportError\<close>, not a \<open>QuokkaException\<close>.
\<close>

theorem run_plugin_unresolved_propagates:
  "run_plugin demo_packages
     \<lparr>conf_plugin_class = ''nosuch.Plugin'', conf_quokka = PyNone,
      conf_monitors = [console_spec], conf_loggers = []\<rparr>
     quokka_init =
   Some (Inl (ImportError ''core.plugins.nosuch''),
         quokka_init\<lparr>events :=
           [LogDebug (''Importing '' @ quoted ''Plugin'' @ '' from '' @
                      quoted ''core.plugins.nosuch'')]\<rparr>)"
  by (simp add: run_plugin_def demo_simps)

text \<open>What \<open>run_plugin\<close> raises when the plugin class does not resolve, in general.\<close>

lemma run_plugin_resolution_error:
  "resolve (plugins_pkg pk) (''core.plugins.'' @ conf_plugin_class cf) = Inl e \<Longrightarrow>
   map_option fst (run_plugin pk cf q) =
     Some (Inl (case e of
                  PluginException msg \<Rightarrow> QuokkaException (''Plugin initialization failed: '' @ msg)
                | _ \<Rightarrow> e))"
  by (simp add: run_plugin_def klass_resolve)

text \<open>
  Claim C10 says that a \<^verbatim>\<open>WebSocketMonitor\<close> spec that is not the first of the list reuses
  the monitor instance constructed before. After a monitor that was skipped there is no
  such instance: with a monitor of an unsupported kind first and the web socket monitor
  second, \<open>attach_monitors\<close> raises the unbound-variable error.
\<close>

theorem websocket_after_skipped_unbound:
  "fst (attach_monitors demo_packages unstarted [file_spec, websocket_spec] quokka_init) =
     Inl (UnboundLocalError ''monitor_instance'')"
  by (simp add: demo_simps)

text \<open>
  Claim C10, amended. For a monitor spec that resolves to a class of kind
  \<^verbatim>\<open>WebSocketMonitor\<close> and whose listeners resolve, \<open>attach_monitors\<close> constructs no
  instance and goes on to the listeners and the start. While no instance has been
  constructed in this call (so when the spec is the first of the list), it raises the
  unbound-variable error. Otherwise the instance constructed last is used again: the
  listeners of the spec are added to it, it is started once more, and it is appended to
  \<^verbatim>\<open>self.monitors\<close> another time; the loop goes on.
\<close>

theorem websocket_monitor_falls_through:
  assumes "resolve (monitors_pkg pk) (''core.monitors.'' @ ms_class m) = Inr mc"
    and "MONITOR_NAME mc = ''WebSocketMonitor''"
    and "map (\<lambda>l. resolve (listeners_pkg pk) (''core.listeners.'' @ ls_class l)) (ms_listeners m) =
         map Inr lcs"
  shows "fst (attach_monitors pk plg (m # ms) q) = Inl (UnboundLocalError ''monitor_instance'') \<and>
         fst (attach_monitors_loop pk plg (m # ms) None q) =
           Inl (UnboundLocalError ''monitor_instance'') \<and>
         attach_monitors_loop pk plg (m # ms) (Some r) q =
           attach_monitors_loop pk plg ms (Some r)
             (q\<lparr>events := events q @
                   [LogInfo (''Attaching monitor '' @ quoted (ms_class m)),
                    import_log (ModuleImporter (''core.monitors.'' @ ms_class m))] @
                   listener_events (ms_listeners m),
                 mstore := (mstore q)(r := (mstore q r)\<lparr>mn_listeners :=
                               mn_listeners (mstore q r) @ built_listeners lcs (ms_listeners m),
                             mn_daemon := True, mn_starts := Suc (mn_starts (mstore q r))\<rparr>),
                 monitors := monitors q @ [r]\<rparr>)"
proof -
  have unbound: "fst (attach_monitors_loop pk plg (m # ms) None q) =
      Inl (UnboundLocalError ''monitor_instance'')"
  proof (cases "ms_listeners m = []")
    case True
    with assms(1,2) show ?thesis
      by (simp add: klass_resolve Let_def attach_instance_def)
  next
    case False
    let ?q2 = "(log_event (LogInfo (''Attaching monitor '' @ quoted (ms_class m))) q)
                \<lparr>events := events q @ [LogInfo (''Attaching monitor '' @ quoted (ms_class m)),
                    import_log (ModuleImporter (''core.monitors.'' @ ms_class m))]\<rparr>"
    from attach_listeners_unbound[OF assms(3) False, of ?q2]
    obtain q' where "attach_listeners pk (ms_listeners m) None ?q2 =
        (Inl (UnboundLocalError ''monitor_instance''), q')"
      by (cases "attach_listeners pk (ms_listeners m) None ?q2") simp
    with assms(1,2) show ?thesis
      by (simp add: klass_resolve Let_def attach_instance_def)
  qed
  have reuse: "attach_monitors_loop pk plg (m # ms) (Some r) q =
           attach_monitors_loop pk plg ms (Some r)
             (q\<lparr>events := events q @
                   [LogInfo (''Attaching monitor '' @ quoted (ms_class m)),
                    import_log (ModuleImporter (''core.monitors.'' @ ms_class m))] @
                   listener_events (ms_listeners m),
                 mstore := (mstore q)(r := (mstore q r)\<lparr>mn_listeners :=
                               mn_listeners (mstore q r) @ built_listeners lcs (ms_listeners m),
                             mn_daemon := True, mn_starts := Suc (mn_starts (mstore q r))\<rparr>),
                 monitors := monitors q @ [r]\<rparr>)"
    using assms
    by (simp add: klass_resolve Let_def attach_instance_def attach_listeners_bound[OF assms(3)]
        monitor_start_def log_event_def)
  from unbound reuse show ?thesis
    by (simp only: attach_monitors_def simp_thms)
qed

theorem websocket_monitor_falls_through_witness:
  "resolve (monitors_pkg demo_packages) (''core.monitors.'' @ ms_class websocket_spec) =
     Inr websocket_class \<and>
   MONITOR_NAME websocket_class = ''WebSocketMonitor'' \<and>
   map (\<lambda>l. resolve (listeners_pkg demo_packages) (''core.listeners.'' @ ls_class l))
     (ms_listeners websocket_spec) = map Inr [''ConsoleListener''] \<and>
   fst (attach_monitors demo_packages unstarted (websocket_spec # []) quokka_init) =
     Inl (UnboundLocalError ''monitor_instance'') \<and>
   monitors (snd (attach_monitors_loop demo_packages unstarted (websocket_spec # []) (Some 0)
                    (quokka_init\<lparr>monitors := [0], mnext := 1\<rparr>))) = [0, 0] \<and>
   mnext (snd (attach_monitors_loop demo_packages unstarted (websocket_spec # []) (Some 0)
                 (quokka_init\<lparr>monitors := [0], mnext := 1\<rparr>))) = 1 \<and>
   mn_listeners (mstore (snd (attach_monitors_loop demo_packages unstarted (websocket_spec # [])
                    (Some 0) (quokka_init\<lparr>monitors := [0], mnext := 1\<rparr>))) 0) =
     [\<lparr>ln_class = ''ConsoleListener'', ln_kargs = []\<rparr>]"
proof -
  have r: "resolve (monitors_pkg demo_packages) (''core.monitors.'' @ ms_class websocket_spec) =
     Inr websocket_class"
    by (simp add: demo_packages_def websocket_spec_def resolve_def klass_def ModuleImporter_def)
  have n: "MONITOR_NAME websocket_class = ''WebSocketMonitor''"
    by (simp add: websocket_class_def)
  have l: "map (\<lambda>l. resolve (listeners_pkg demo_packages) (''core.listeners.'' @ ls_class l))
     (ms_listeners websocket_spec) = map Inr [''ConsoleListener'']"
    by (simp add: demo_packages_def websocket_spec_def resolve_def klass_def ModuleImporter_def)
  note w = websocket_monitor_falls_through[OF r n l, of unstarted "[]"]
  have a: "fst (attach_monitors demo_packages unstarted (websocket_spec # []) quokka_init) =
     Inl (UnboundLocalError ''monitor_instance'')"
    by (rule w[THEN conjunct1])
  have b: "attach_monitors_loop demo_packages unstarted (websocket_spec # []) (Some 0)
             (quokka_init\<lparr>monitors := [0], mnext := 1\<rparr>) =
           (Inr (), (quokka_init\<lparr>monitors := [0], mnext := 1\<rparr>)
             \<lparr>events := events (quokka_init\<lparr>monitors := [0], mnext := 1\<rparr>) @
                   [LogInfo (''Attaching monitor '' @ quoted (ms_class websocket_spec)),
                    import_log (ModuleImporter (''core.monitors.'' @ ms_class websocket_spec))] @
                   listener_events (ms_listeners websocket_spec),
              mstore := (mstore (quokka_init\<lparr>monitors := [0], mnext := 1\<rparr>))(0 :=
                 (mstore (quokka_init\<lparr>monitors := [0], mnext := 1\<rparr>) 0)\<lparr>mn_listeners :=
                     mn_listeners (mstore (quokka_init\<lparr>monitors := [0], mnext := 1\<rparr>) 0) @
                     built_listeners [''ConsoleListener''] (ms_listeners websocket_spec),
                   mn_daemon := True,
                   mn_starts := Suc (mn_starts (mstore (quokka_init\<lparr>monitors := [0], mnext := 1\<rparr>) 0))\<rparr>),
              monitors := monitors (quokka_init\<lparr>monitors := [0], mnext := 1\<rparr>) @ [0]\<rparr>)"
    by (simp only: w[THEN conjunct2, THEN conjunct2] attach_monitors_loop.simps(1))
  show ?thesis
    unfolding b using r n l a
    by (simp add: quokka_init_def built_listeners_def websocket_spec_def blank_monitor_def
        new_monitor_def)
qed

end
